theory Spec2Isabelle
  imports Complex_Main
begin

section \<open>Data model (main.go, lines 18-70)\<close>

text \<open>
  The structs of the service, field by field and under the source's names. A Go string
  is a \<open>string\<close>. A \<open>float32\<close> or \<open>float64\<close> field holds the real number the float
  denotes and the \<open>int\<close> field an integer: the program stores and returns these fields
  and never computes with them. Several structs share field names (\<open>Type\<close>,
  \<open>Ref\<close>, \<open>Photos\<close>, \<open>Description\<close>); a selector is then written with its record's
  name, as in \<open>Slug.Current\<close>.
\<close>

text \<open>
  A Go slice is either \<open>nil\<close> or a backing sequence of elements. The two differ when
  the slice is serialised, so the model keeps them apart. \<open>elems\<close> is what a
  \<open>for ... range\<close> loop visits: nothing for the nil slice.
\<close>

datatype 'a slice = NilSlice | Slice "'a list"

fun elems :: "'a slice \<Rightarrow> 'a list" where
  "elems NilSlice = []"
| "elems (Slice xs) = xs"

record Slug =
  Current :: string
  Type :: string

record Reference =
  Ref :: string
  Type :: string

record GeoLocation =
  Type :: string
  Lat :: real
  Lng :: real

record Asset =
  Ref :: string
  Type :: string

record SanityImage =
  Key :: string
  Type :: string
  Asset :: Asset

record Facility =
  FacilityType :: Reference
  FacilityName :: string
  Description :: string
  Photos :: "SanityImage slice"

record Property =
  ID :: string
  Title :: string
  Slug :: Slug
  Developer :: Reference
  Description :: string
  MapURL :: string
  GeoLocation :: GeoLocation
  MinPrice :: real
  MaxPrice :: real
  Facilities :: "Facility slice"
  Photos :: "SanityImage slice"
  Built :: int
  CreatedAt :: string

text \<open>
  A decoded JSON document as Go's \<open>interface{}\<close> holds it after \<open>json.Unmarshal\<close>:
  \<open>nil\<close>, a \<open>bool\<close>, a \<open>float64\<close>, a \<open>string\<close>, a \<open>[]interface{}\<close> or a
  \<open>map[string]interface{}\<close> (its entries as an association list).
\<close>

datatype json =
    JNull
  | JBool bool
  | JNumber real
  | JString string
  | JArray "json list"
  | JObject "(string \<times> json) list"


section \<open>The world outside the program\<close>

text \<open>
  What \<open>http.Get\<close> hands back on success, as far as the program looks at it: the status
  code, the status line, and what \<open>ioutil.ReadAll(resp.Body)\<close> yields (\<open>Inl\<close> the read
  error, \<open>Inr\<close> the bytes).
\<close>

record Response =
  StatusCode :: nat
  Status :: string
  Body :: "string + string"

text \<open>
  The library calls of \<open>fetchPropertiesFromSanity\<close> whose results the program only
  branches on. Each is a parameter of the model, so every theorem below holds whatever
  these functions are. An error is \<open>Inl\<close> of its text.
  \<^item> \<open>QueryEscape\<close> is \<open>url.QueryEscape\<close>;
  \<^item> \<open>http_Get\<close> is \<open>http.Get\<close> at the time of the call;
  \<^item> \<open>Unmarshal_map\<close> is \<open>json.Unmarshal\<close> into a \<open>map[string]interface{}\<close>, the map
    given by its entries;
  \<^item> \<open>Marshal\<close> is \<open>json.Marshal\<close> on a decoded document (its error is discarded by the
    program);
  \<^item> \<open>Unmarshal_Property\<close> is \<open>json.Unmarshal\<close> into a \<open>Property\<close>.
\<close>

record extern =
  QueryEscape :: "string \<Rightarrow> string"
  http_Get :: "string \<Rightarrow> string + Response"
  Unmarshal_map :: "string \<Rightarrow> string + (string \<times> json) list"
  Marshal :: "json \<Rightarrow> string"
  Unmarshal_Property :: "string \<Rightarrow> string + Property"

section \<open>Snapshot and refresh (main.go, lines 70 and 139-185)\<close>

text \<open>
  The model is sequential: a refresh or a handler call is a function from the state
  before it to the state after it, and nothing runs in between.
\<close>

text \<open>
  The package-level variable \<open>properties\<close> together with the lines written through
  package \<open>log\<close>, oldest first. A line is the text \<open>log.Println\<close> builds from its
  operands (joined by single spaces), without the time stamp and the final newline.
\<close>

record server =
  properties :: "Property slice"
  logged :: "string list"

definition log_Println :: "string \<Rightarrow> server \<Rightarrow> server" where
  "log_Println line s = s\<lparr>logged := logged s @ [line]\<rparr>"

text \<open>\<open>var properties []Property\<close>: a nil slice, and nothing logged yet.\<close>

definition initial :: server where
  "initial = \<lparr>properties = NilSlice, logged = []\<rparr>"

text \<open>
  The loop of lines 171-179 over \<open>propertiesData\<close>, carrying \<open>newProperties\<close> and the
  log. An element that does not decode is logged and skipped (\<open>continue\<close>).
\<close>

fun decode_each :: "extern \<Rightarrow> json list \<Rightarrow> Property list \<Rightarrow> string list
    \<Rightarrow> Property list \<times> string list" where
  "decode_each ex [] newProperties lg = (newProperties, lg)"
| "decode_each ex (propertyData # rest) newProperties lg =
     (let propertyBytes = Marshal ex propertyData in
      case Unmarshal_Property ex propertyBytes of
        Inl err \<Rightarrow>
          decode_each ex rest newProperties (lg @ [''Failed to unmarshal property: '' @ err])
      | Inr property \<Rightarrow>
          decode_each ex rest (newProperties @ [property]) lg)"

text \<open>
  \<open>result["result"].([]interface{})\<close>: the entry under the key \<open>result\<close>, if it is an
  array. A missing key reads as \<open>nil\<close>, which is not an array.
\<close>

fun result_array :: "(string \<times> json) list \<Rightarrow> json list option" where
  "result_array result =
     (case map_of result ''result'' of
        Some (JArray propertiesData) \<Rightarrow> Some propertiesData
      | _ \<Rightarrow> None)"

definition query :: string where
  "query = ''*[_type == '' @ [CHR 0x22] @ ''property'' @ [CHR 0x22] @ '']''"

definition fetchPropertiesFromSanity :: "extern \<Rightarrow> string \<Rightarrow> server \<Rightarrow> server" where
  "fetchPropertiesFromSanity ex sanityAPI s =
     (let encodedQuery = QueryEscape ex query;
          url = sanityAPI @ encodedQuery
      in case http_Get ex url of
        Inl err \<Rightarrow> log_Println (''Failed to fetch properties from Sanity: '' @ err) s
      | Inr resp \<Rightarrow>
          if StatusCode resp \<noteq> 200
          then log_Println (''Sanity API returned non-200 status: '' @ Status resp) s
          else
            (case Body resp of
               Inl err \<Rightarrow> log_Println (''Failed to read Sanity API response: '' @ err) s
             | Inr body \<Rightarrow>
                 (case Unmarshal_map ex body of
                    Inl err \<Rightarrow>
                      log_Println (''Failed to parse JSON from Sanity API: '' @ err) s
                  | Inr result \<Rightarrow>
                      (case result_array result of
                         Some propertiesData \<Rightarrow>
                           (case decode_each ex propertiesData [] (logged s) of
                              (newProperties, lg) \<Rightarrow>
                                log_Println ''Properties successfully updated from Sanity.''
                                  \<lparr>properties = Slice newProperties, logged = lg\<rparr>)
                       | None \<Rightarrow>
                           log_Println ''No properties found in Sanity API response.'' s))))"


section \<open>HTTP handlers (main.go, lines 133-137 and 187-198)\<close>

text \<open>
  What a handler has done to its \<open>http.ResponseWriter\<close>: the header map, the status code
  once it is written (\<open>None\<close> before), and the bytes of the body. The first \<open>Write\<close>
  writes status 200 when no status was written before it; a second \<open>WriteHeader\<close> is
  ignored.
\<close>

record ResponseWriter =
  Header :: "string \<rightharpoonup> string"
  Code :: "nat option"
  Written :: string

definition fresh :: ResponseWriter where
  "fresh = \<lparr>Header = Map.empty, Code = None, Written = []\<rparr>"

definition Header_Set :: "string \<Rightarrow> string \<Rightarrow> ResponseWriter \<Rightarrow> ResponseWriter" where
  "Header_Set k v w = w\<lparr>Header := (Header w)(k \<mapsto> v)\<rparr>"

definition Header_Del :: "string \<Rightarrow> ResponseWriter \<Rightarrow> ResponseWriter" where
  "Header_Del k w = w\<lparr>Header := (Header w)(k := None)\<rparr>"

definition WriteHeader :: "nat \<Rightarrow> ResponseWriter \<Rightarrow> ResponseWriter" where
  "WriteHeader c w = (case Code w of None \<Rightarrow> w\<lparr>Code := Some c\<rparr> | Some _ \<Rightarrow> w)"

definition Write :: "string \<Rightarrow> ResponseWriter \<Rightarrow> ResponseWriter" where
  "Write bytes w = (let w' = WriteHeader 200 w in w'\<lparr>Written := Written w' @ bytes\<rparr>)"

definition newline :: string where
  "newline = [CHR 0x0A]"

text \<open>
  \<open>http.Error\<close>: plain-text content type, no sniffing, the status code, then the message
  and a newline (\<open>fmt.Fprintln\<close>).
\<close>

definition http_Error :: "string \<Rightarrow> nat \<Rightarrow> ResponseWriter \<Rightarrow> ResponseWriter" where
  "http_Error msg c w =
     Write (msg @ newline)
       (WriteHeader c
         (Header_Set ''X-Content-Type-Options'' ''nosniff''
           (Header_Set ''Content-Type'' ''text/plain; charset=utf-8''
             (Header_Del ''Content-Length'' w))))"

text \<open>
  \<open>json.NewEncoder(w).Encode(v)\<close> writes the JSON text of \<open>v\<close> and a newline. For a slice
  the text is \<open>null\<close> when the slice is nil and otherwise the elements' texts between
  brackets, separated by commas. The text of one \<open>Property\<close> (field order, number
  formatting, string escaping) is the parameter \<open>enc\<close>.
\<close>

fun commas :: "string list \<Rightarrow> string" where
  "commas [] = []"
| "commas [x] = x"
| "commas (x # y # ys) = x @ '','' @ commas (y # ys)"

fun encode_slice :: "(Property \<Rightarrow> string) \<Rightarrow> Property slice \<Rightarrow> string" where
  "encode_slice enc NilSlice = ''null''"
| "encode_slice enc (Slice xs) = ''['' @ commas (map enc xs) @ '']''"

definition Encode :: "string \<Rightarrow> ResponseWriter \<Rightarrow> ResponseWriter" where
  "Encode text w = Write (text @ newline) w"

definition GetProperties :: "(Property \<Rightarrow> string) \<Rightarrow> server \<Rightarrow> ResponseWriter \<Rightarrow> ResponseWriter" where
  "GetProperties enc s w =
     Encode (encode_slice enc (properties s))
       (Header_Set ''Content-Type'' ''application/json'' w)"

text \<open>
  \<open>mux.Vars(r)\<close> is the request's map of path parameters; indexing a Go map at a missing
  key gives the empty string.
\<close>

definition index_map :: "(string \<rightharpoonup> string) \<Rightarrow> string \<Rightarrow> string" where
  "index_map m k = (case m k of None \<Rightarrow> [] | Some v \<Rightarrow> v)"

text \<open>The loop of lines 190-196 and, when it falls through, line 197.\<close>

fun scan_slug :: "(Property \<Rightarrow> string) \<Rightarrow> (string \<rightharpoonup> string) \<Rightarrow> Property list
    \<Rightarrow> ResponseWriter \<Rightarrow> ResponseWriter" where
  "scan_slug enc params [] w = http_Error ''Property not found'' 404 w"
| "scan_slug enc params (item # rest) w =
     (if Slug.Current (Property.Slug item) = index_map params ''slug''
      then Encode (enc item) (Header_Set ''Content-Type'' ''application/json'' w)
      else scan_slug enc params rest w)"

definition GetPropertyBySlug :: "(Property \<Rightarrow> string) \<Rightarrow> server \<Rightarrow> (string \<rightharpoonup> string)
    \<Rightarrow> ResponseWriter \<Rightarrow> ResponseWriter" where
  "GetPropertyBySlug enc s params w = scan_slug enc params (elems (properties s)) w"

section \<open>Startup (main.go, lines 74-131)\<close>

text \<open>
  The process environment is a map from names to values; \<open>os.Getenv\<close> gives the empty
  string for a name that is not set. \<open>godotenv.Load()\<close> reads the file \<open>.env\<close>: it fails
  (\<open>Inl\<close>) when the file cannot be opened or parsed; otherwise the file is a map of
  variables, and each of them that the environment does not have yet is set (a variable
  that is already set keeps its value).
\<close>

definition os_Getenv :: "(string \<rightharpoonup> string) \<Rightarrow> string \<Rightarrow> string" where
  "os_Getenv env k = (case env k of None \<Rightarrow> [] | Some v \<Rightarrow> v)"

definition godotenv_Load :: "string + (string \<rightharpoonup> string) \<Rightarrow> (string \<rightharpoonup> string)
    \<Rightarrow> string + (string \<rightharpoonup> string)" where
  "godotenv_Load dotenv env =
     (case dotenv of
        Inl err \<Rightarrow> Inl err
      | Inr envMap \<Rightarrow>
          Inr (\<lambda>key. case env key of None \<Rightarrow> envMap key | Some v \<Rightarrow> Some v))"

text \<open>
  What \<open>main\<close> does that is visible from outside, in order. \<open>log.Fatal\<close> prints its
  operands and exits with status 1, so it is always the last action; \<open>log.Fatal\<close> joins
  a string and an error without a space. Building the router and the CORS wrapper has no
  effect outside the process and is left out.
\<close>

datatype action =
    LoadDotenv
  | Getenv string
  | Fatal string
  | GoRefresher string
  | Println string
  | ListenAndServe string

definition main :: "string + (string \<rightharpoonup> string) \<Rightarrow> (string \<rightharpoonup> string) \<Rightarrow> action list" where
  "main dotenv env =
     LoadDotenv #
     (case godotenv_Load dotenv env of
        Inl err \<Rightarrow> [Fatal (''Error loading .env file:'' @ err)]
      | Inr env' \<Rightarrow>
          Getenv ''SANITY_API_URL'' #
          (let sanityAPI = os_Getenv env' ''SANITY_API_URL'' in
           if sanityAPI = []
           then [Fatal ''SANITY_API_URL is not set in the environment'']
           else
             GoRefresher sanityAPI #
             Getenv ''PORT'' #
             (let port = (if os_Getenv env' ''PORT'' = [] then ''8000''
                          else os_Getenv env' ''PORT'')
              in [Println (''Server is running on port: '' @ port),
                  ListenAndServe ('':'' @ port)])))"

section \<open>Specification-side notions\<close>

text \<open>
  The words of the specification about a refresh: each element of the \<open>result\<close> array is
  decoded on its own (\<open>outcomes\<close>); the well-formed ones are those that decode
  (\<open>successes\<close>, in the array's order) and the malformed ones those that give an error
  (\<open>failures\<close>).
\<close>

fun successes :: "('e + 'a) list \<Rightarrow> 'a list" where
  "successes [] = []"
| "successes (Inl e # rs) = successes rs"
| "successes (Inr p # rs) = p # successes rs"

fun failures :: "('e + 'a) list \<Rightarrow> 'e list" where
  "failures [] = []"
| "failures (Inl e # rs) = e # failures rs"
| "failures (Inr p # rs) = failures rs"

definition outcomes :: "extern \<Rightarrow> json list \<Rightarrow> (string + Property) list" where
  "outcomes ex ds = map (\<lambda>d. Unmarshal_Property ex (Marshal ex d)) ds"

section \<open>Sample inputs\<close>

text \<open>
  Concrete inputs on which the model is run below: a property with every field at Go's
  zero value, two documents as the CMS would send them, and stand-ins for the library
  calls that know exactly these documents. \<open>sample_enc\<close> prints only the identifier and
  the slug of a property, of the thirteen fields that the encoder prints. The theorems do not depend on any of them; they serve to
  evaluate the theorems at explicit inputs.
\<close>

definition zero_Property :: Property where
  "zero_Property =
     \<lparr>ID = [], Title = [], Slug = \<lparr>Current = [], Slug.Type = []\<rparr>,
      Developer = \<lparr>Reference.Ref = [], Reference.Type = []\<rparr>,
      Property.Description = [], MapURL = [],
      GeoLocation = \<lparr>GeoLocation.Type = [], Lat = 0, Lng = 0\<rparr>,
      MinPrice = 0, MaxPrice = 0, Facilities = NilSlice, Property.Photos = NilSlice,
      Built = 0, CreatedAt = []\<rparr>"

definition sample_Property :: "string \<Rightarrow> string \<Rightarrow> Property" where
  "sample_Property i sl =
     zero_Property\<lparr>ID := i, Slug := \<lparr>Current = sl, Slug.Type = ''slug''\<rparr>\<rparr>"

definition sample_doc :: "string \<Rightarrow> string \<Rightarrow> json" where
  "sample_doc i sl =
     JObject [(''_id'', JString i),
              (''slug'', JObject [(''_type'', JString ''slug''), (''current'', JString sl)])]"

definition sample_text :: "string \<Rightarrow> string \<Rightarrow> string" where
  \<open>sample_text i sl =
     ''{"_id":"'' @ i @ ''","slug":{"_type":"slug","current":"'' @ sl @ ''"}}''\<close>

definition sample_enc :: "Property \<Rightarrow> string" where
  \<open>sample_enc p =
     ''{"_id":"'' @ ID p @ ''","slug":{"_type":"'' @ Slug.Type (Property.Slug p)
       @ ''","current":"'' @ Slug.Current (Property.Slug p) @ ''"}}''\<close>

definition sample_body :: string where
  \<open>sample_body =
     ''{"result":['' @ sample_text ''p1'' ''garden-heights'' @ '',7,''
       @ sample_text ''p2'' ''lake-view'' @ '']}''\<close>

definition sample_Unmarshal_map :: "string \<Rightarrow> string + (string \<times> json) list" where
  \<open>sample_Unmarshal_map body =
     (if body = sample_body
      then Inr [(''result'', JArray [sample_doc ''p1'' ''garden-heights'', JNumber 7,
                                     sample_doc ''p2'' ''lake-view''])]
      else if body = ''{"ms":3}'' then Inr [(''ms'', JNumber 3)]
      else if body = ''{"result":null}'' then Inr [(''result'', JNull)]
      else Inl (''invalid character '' @ take 1 body))\<close>

definition sample_Marshal :: "json \<Rightarrow> string" where
  "sample_Marshal d =
     (if d = sample_doc ''p1'' ''garden-heights'' then sample_text ''p1'' ''garden-heights''
      else if d = sample_doc ''p2'' ''lake-view'' then sample_text ''p2'' ''lake-view''
      else if d = JNumber 7 then ''7''
      else ''null'')"

definition sample_Unmarshal_Property :: "string \<Rightarrow> string + Property" where
  "sample_Unmarshal_Property bytes =
     (if bytes = sample_text ''p1'' ''garden-heights''
      then Inr (sample_Property ''p1'' ''garden-heights'')
      else if bytes = sample_text ''p2'' ''lake-view''
      then Inr (sample_Property ''p2'' ''lake-view'')
      else if bytes = ''null'' then Inr zero_Property
      else Inl ''json: cannot unmarshal number into Go value of type main.Property'')"

definition sample_extern :: "string + Response \<Rightarrow> extern" where
  "sample_extern reply =
     \<lparr>QueryEscape = (\<lambda>q. ''%2A%5B_type+%3D%3D+%22property%22%5D''),
      http_Get = (\<lambda>url. reply),
      Unmarshal_map = sample_Unmarshal_map,
      Marshal = sample_Marshal,
      Unmarshal_Property = sample_Unmarshal_Property\<rparr>"

definition sample_reply :: "string \<Rightarrow> string + Response" where
  "sample_reply body = Inr \<lparr>StatusCode = 200, Status = ''200 OK'', Body = Inr body\<rparr>"

definition sample_server :: server where
  "sample_server =
     \<lparr>properties = Slice [sample_Property ''p2'' ''lake-view'',
                          sample_Property ''p1'' ''garden-heights''],
      logged = []\<rparr>"

definition sample_duplicates :: server where
  "sample_duplicates =
     \<lparr>properties = Slice [sample_Property ''p2'' ''lake-view'',
                          sample_Property ''p1'' ''garden-heights'',
                          sample_Property ''p3'' ''garden-heights''],
      logged = []\<rparr>"

section \<open>Refresh: auxiliary facts\<close>

lemma decode_each_acc:
  "decode_each ex ds acc lg =
     (acc @ successes (outcomes ex ds),
      lg @ map (\<lambda>e. ''Failed to unmarshal property: '' @ e) (failures (outcomes ex ds)))"
proof (induction ds arbitrary: acc lg)
  case Nil
  show ?case by (simp add: outcomes_def)
next
  case (Cons d ds)
  show ?case
  proof (cases "Unmarshal_Property ex (Marshal ex d)")
    case (Inl e)
    then show ?thesis using Cons.IH by (simp add: outcomes_def)
  next
    case (Inr p)
    then show ?thesis using Cons.IH by (simp add: outcomes_def)
  qed
qed

lemma successes_failures_length:
  "length (successes rs) + length (failures rs) = length rs"
  by (induction rs rule: successes.induct) simp_all

section \<open>Refresh: failure, success, idempotence\<close>

text \<open>
  Claim C2. When the upstream fetch of a refresh fails, the snapshot is left as it was,
  nil or not, same entries in the same order. The fetch fails when \<open>http.Get\<close> returns an
  error, when the status code is not 200, when the body cannot be read, or when the body
  does not decode as a top-level JSON object.
\<close>

theorem failed_fetch_keeps_snapshot:
  assumes "(\<exists>err. http_Get ex (sanityAPI @ QueryEscape ex query) = Inl err) \<or>
           (\<exists>resp. http_Get ex (sanityAPI @ QueryEscape ex query) = Inr resp \<and>
              (StatusCode resp \<noteq> 200 \<or>
               (\<exists>err. Body resp = Inl err) \<or>
               (\<exists>body err. Body resp = Inr body \<and> Unmarshal_map ex body = Inl err)))"
  shows "properties (fetchPropertiesFromSanity ex sanityAPI s) = properties s"
  using assms
  by (auto simp: fetchPropertiesFromSanity_def log_Println_def Let_def)

theorem failed_fetch_keeps_snapshot_witness:
  "properties (fetchPropertiesFromSanity
      (sample_extern (Inl ''dial tcp: connection refused'')) ''https://cms/query='' sample_server)
     = properties sample_server \<and>
   properties (fetchPropertiesFromSanity
      (sample_extern (Inr \<lparr>StatusCode = 503, Status = ''503 Service Unavailable'', Body = Inr []\<rparr>))
      ''https://cms/query='' sample_server)
     = properties sample_server \<and>
   properties (fetchPropertiesFromSanity
      (sample_extern (Inr \<lparr>StatusCode = 200, Status = ''200 OK'', Body = Inl ''unexpected EOF''\<rparr>))
      ''https://cms/query='' sample_server)
     = properties sample_server \<and>
   properties (fetchPropertiesFromSanity
      (sample_extern (sample_reply ''<html>'')) ''https://cms/query='' sample_server)
     = properties sample_server \<and>
   sample_Unmarshal_map ''<html>'' = Inl ''invalid character <''"
  using
    failed_fetch_keeps_snapshot [of "sample_extern (Inl ''dial tcp: connection refused'')" "''https://cms/query=''"
      sample_server]
    failed_fetch_keeps_snapshot [of "sample_extern (Inr \<lparr>StatusCode = 503, Status = ''503 Service Unavailable'',
      Body = Inr []\<rparr>)" "''https://cms/query=''" sample_server]
    failed_fetch_keeps_snapshot [of "sample_extern (Inr \<lparr>StatusCode = 200, Status = ''200 OK'',
      Body = Inl ''unexpected EOF''\<rparr>)" "''https://cms/query=''" sample_server]
    failed_fetch_keeps_snapshot [of "sample_extern (sample_reply ''<html>'')" "''https://cms/query=''" sample_server]
  by (simp add: sample_extern_def sample_reply_def sample_Unmarshal_map_def sample_body_def
      sample_text_def)

text \<open>
  Claim C3. When the response has status 200 and its \<open>result\<close> field is an array, the
  refresh runs to its end and installs as the new snapshot exactly the elements that
  decode into a \<open>Property\<close>, in the order of the array; every element that does not
  decode adds one line to the log and is dropped. The well-formed and the malformed
  elements together are all the elements of the array.
\<close>

theorem refresh_installs_decoded_elements:
  assumes "http_Get ex (sanityAPI @ QueryEscape ex query) = Inr resp"
    and "StatusCode resp = 200"
    and "Body resp = Inr body"
    and "Unmarshal_map ex body = Inr result"
    and "map_of result ''result'' = Some (JArray propertiesData)"
  shows "properties (fetchPropertiesFromSanity ex sanityAPI s)
           = Slice (successes (outcomes ex propertiesData)) \<and>
         logged (fetchPropertiesFromSanity ex sanityAPI s)
           = logged s
             @ map (\<lambda>err. ''Failed to unmarshal property: '' @ err)
                 (failures (outcomes ex propertiesData))
             @ [''Properties successfully updated from Sanity.''] \<and>
         length (successes (outcomes ex propertiesData))
           + length (failures (outcomes ex propertiesData)) = length propertiesData"
  using assms
  by (simp add: fetchPropertiesFromSanity_def log_Println_def Let_def decode_each_acc
      successes_failures_length [of "outcomes ex propertiesData"])
    (simp add: outcomes_def)

theorem refresh_installs_decoded_elements_witness:
  "properties (fetchPropertiesFromSanity (sample_extern (sample_reply sample_body))
      ''https://cms/query='' sample_server)
     = Slice [sample_Property ''p1'' ''garden-heights'', sample_Property ''p2'' ''lake-view''] \<and>
   logged (fetchPropertiesFromSanity (sample_extern (sample_reply sample_body))
      ''https://cms/query='' sample_server)
     = [''Failed to unmarshal property: json: cannot unmarshal number into Go value of type main.Property'',
        ''Properties successfully updated from Sanity.'']"
proof -
  let ?ex = "sample_extern (sample_reply sample_body)"
  let ?ds = "[sample_doc ''p1'' ''garden-heights'', JNumber 7, sample_doc ''p2'' ''lake-view'']"
  have get: "http_Get ?ex (''https://cms/query='' @ QueryEscape ?ex query)
               = Inr \<lparr>StatusCode = 200, Status = ''200 OK'', Body = Inr sample_body\<rparr>"
    by (simp add: sample_extern_def sample_reply_def)
  have parse: "Unmarshal_map ?ex sample_body = Inr [(''result'', JArray ?ds)]"
    by (simp add: sample_extern_def sample_Unmarshal_map_def)
  have outs: "outcomes ?ex ?ds
                = [Inr (sample_Property ''p1'' ''garden-heights''),
                   Inl ''json: cannot unmarshal number into Go value of type main.Property'',
                   Inr (sample_Property ''p2'' ''lake-view'')]"
    by (simp add: outcomes_def sample_extern_def sample_Marshal_def
        sample_Unmarshal_Property_def sample_doc_def sample_text_def)
  show ?thesis
    using refresh_installs_decoded_elements [OF get _ _ parse, where propertiesData = ?ds and s = sample_server] outs
    by (simp add: sample_server_def)
qed

text \<open>
  Claim C4. When the response decodes as a top-level JSON object whose \<open>result\<close> field is
  absent or is not an array, the refresh logs that no properties were found and changes
  nothing else: the previous snapshot is kept.
\<close>

theorem missing_result_keeps_snapshot:
  assumes "http_Get ex (sanityAPI @ QueryEscape ex query) = Inr resp"
    and "StatusCode resp = 200"
    and "Body resp = Inr body"
    and "Unmarshal_map ex body = Inr result"
    and "map_of result ''result'' = None \<or>
         (\<exists>v. map_of result ''result'' = Some v \<and> (\<forall>ds. v \<noteq> JArray ds))"
  shows "fetchPropertiesFromSanity ex sanityAPI s
           = s\<lparr>logged := logged s @ [''No properties found in Sanity API response.'']\<rparr>"
  using assms
  by (auto simp: fetchPropertiesFromSanity_def log_Println_def Let_def
      split: option.splits json.splits)

theorem missing_result_keeps_snapshot_witness:
  \<open>fetchPropertiesFromSanity (sample_extern (sample_reply ''{"ms":3}''))
      ''https://cms/query='' sample_server
     = sample_server\<lparr>logged := [''No properties found in Sanity API response.'']\<rparr> \<and>
   fetchPropertiesFromSanity (sample_extern (sample_reply ''{"result":null}''))
      ''https://cms/query='' sample_server
     = sample_server\<lparr>logged := [''No properties found in Sanity API response.'']\<rparr> \<and>
   sample_Unmarshal_map ''{"ms":3}'' = Inr [(''ms'', JNumber 3)] \<and>
   sample_Unmarshal_map ''{"result":null}'' = Inr [(''result'', JNull)]\<close>
proof -
  have a: \<open>sample_Unmarshal_map ''{"ms":3}'' = Inr [(''ms'', JNumber 3)]\<close>
    and b: \<open>sample_Unmarshal_map ''{"result":null}'' = Inr [(''result'', JNull)]\<close>
    by (simp_all add: sample_Unmarshal_map_def sample_body_def sample_text_def)
  show ?thesis
    using a b
      missing_result_keeps_snapshot [of \<open>sample_extern (sample_reply ''{"ms":3}'')\<close> "''https://cms/query=''"
        "\<lparr>StatusCode = 200, Status = ''200 OK'', Body = Inr ''{\"ms\":3}''\<rparr>"
        \<open>''{"ms":3}''\<close> "[(''ms'', JNumber 3)]" sample_server]
      missing_result_keeps_snapshot [of \<open>sample_extern (sample_reply ''{"result":null}'')\<close> "''https://cms/query=''"
        \<open>\<lparr>StatusCode = 200, Status = ''200 OK'', Body = Inr ''{"result":null}''\<rparr>\<close>
        \<open>''{"result":null}''\<close> "[(''result'', JNull)]" sample_server]
    by (simp add: sample_extern_def sample_reply_def sample_server_def)
qed

text \<open>
  Claim C8. A second refresh against the same upstream answers leaves the snapshot that
  the first refresh produced.
\<close>

theorem refresh_twice_same_snapshot:
  "properties (fetchPropertiesFromSanity ex sanityAPI (fetchPropertiesFromSanity ex sanityAPI s))
     = properties (fetchPropertiesFromSanity ex sanityAPI s)"
  by (simp add: fetchPropertiesFromSanity_def log_Println_def Let_def decode_each_acc
      split: sum.splits option.splits)

section \<open>Handlers\<close>

lemma Encode_fresh:
  "Code w = None \<Longrightarrow> Written w = [] \<Longrightarrow>
   Code (Encode text (Header_Set ''Content-Type'' ''application/json'' w)) = Some 200 \<and>
   Written (Encode text (Header_Set ''Content-Type'' ''application/json'' w)) = text @ newline \<and>
   Header (Encode text (Header_Set ''Content-Type'' ''application/json'' w)) ''Content-Type''
     = Some ''application/json''"
  by (simp add: Encode_def Write_def WriteHeader_def Header_Set_def Let_def)

lemma http_Error_fresh:
  "Code w = None \<Longrightarrow> Written w = [] \<Longrightarrow>
   Code (http_Error msg c w) = Some c \<and>
   Written (http_Error msg c w) = msg @ newline \<and>
   Header (http_Error msg c w) ''Content-Type'' = Some ''text/plain; charset=utf-8''"
  by (simp add: http_Error_def Write_def WriteHeader_def Header_Set_def Header_Del_def Let_def)

text \<open>
  Claim C5. The claim is that \<open>GET /properties\<close> on an empty snapshot, the initial one
  included, answers 200 with content type \<open>application/json\<close> and an empty JSON array.
  Status and content type are as claimed. The body is the empty array once a refresh has
  installed an empty snapshot, but before the first successful refresh the snapshot is
  the nil slice and the body is \<open>null\<close>.
\<close>

theorem GetProperties_nil_snapshot_is_null:
  "Code (GetProperties enc initial fresh) = Some 200 \<and>
   Header (GetProperties enc initial fresh) ''Content-Type'' = Some ''application/json'' \<and>
   Written (GetProperties enc initial fresh) = ''null'' @ newline \<and>
   Written (GetProperties enc initial fresh) \<noteq> ''[]'' @ newline \<and>
   Written (GetProperties enc \<lparr>properties = Slice [], logged = lg\<rparr> fresh) = ''[]'' @ newline"
  by (simp add: GetProperties_def initial_def fresh_def Encode_def Write_def WriteHeader_def
      Header_Set_def Let_def)

lemma scan_slug_miss:
  "\<forall>p \<in> set xs. Slug.Current (Property.Slug p) \<noteq> index_map params ''slug'' \<Longrightarrow>
   scan_slug enc params xs w = http_Error ''Property not found'' 404 w"
  by (induction xs) simp_all

lemma scan_slug_first:
  "i < length xs \<Longrightarrow> Slug.Current (Property.Slug (xs ! i)) = index_map params ''slug'' \<Longrightarrow>
   \<forall>j < i. Slug.Current (Property.Slug (xs ! j)) \<noteq> index_map params ''slug'' \<Longrightarrow>
   scan_slug enc params xs w
     = Encode (enc (xs ! i)) (Header_Set ''Content-Type'' ''application/json'' w)"
proof (induction xs arbitrary: i)
  case Nil
  then show ?case by simp
next
  case (Cons x xs)
  show ?case
  proof (cases i)
    case 0
    with Cons.prems show ?thesis by simp
  next
    case (Suc k)
    from Cons.prems(3) Suc have "Slug.Current (Property.Slug x) \<noteq> index_map params ''slug''"
      by auto
    moreover from Cons.prems Suc
    have "scan_slug enc params xs w
            = Encode (enc (xs ! k)) (Header_Set ''Content-Type'' ''application/json'' w)"
      by (intro Cons.IH) auto
    ultimately show ?thesis using Suc by simp
  qed
qed

lemma scan_slug_hit:
  "\<exists>p \<in> set xs. Slug.Current (Property.Slug p) = index_map params ''slug'' \<Longrightarrow>
   \<exists>p \<in> set xs. Slug.Current (Property.Slug p) = index_map params ''slug'' \<and>
     scan_slug enc params xs w
       = Encode (enc p) (Header_Set ''Content-Type'' ''application/json'' w)"
  by (induction xs) auto

text \<open>
  Claim C6. On a writer to which nothing was written yet: if some property of the
  snapshot has the requested slug, \<open>GET /properties/{slug}\<close> answers 200 with content
  type \<open>application/json\<close> and the encoding of a property with that slug; if none has,
  it answers 404 with a plain-text body, the line \<open>Property not found\<close>. Both bodies end
  with the newline that \<open>Encode\<close> and \<open>http.Error\<close> append.
\<close>

theorem GetPropertyBySlug_found_or_404:
  assumes "Code w = None" and "Written w = []"
  shows "((\<exists>p \<in> set (elems (properties s)).
             Slug.Current (Property.Slug p) = index_map params ''slug'') \<longrightarrow>
          (\<exists>p \<in> set (elems (properties s)).
             Slug.Current (Property.Slug p) = index_map params ''slug'' \<and>
             Code (GetPropertyBySlug enc s params w) = Some 200 \<and>
             Header (GetPropertyBySlug enc s params w) ''Content-Type'' = Some ''application/json'' \<and>
             Written (GetPropertyBySlug enc s params w) = enc p @ newline)) \<and>
         ((\<forall>p \<in> set (elems (properties s)).
             Slug.Current (Property.Slug p) \<noteq> index_map params ''slug'') \<longrightarrow>
          Code (GetPropertyBySlug enc s params w) = Some 404 \<and>
          Header (GetPropertyBySlug enc s params w) ''Content-Type''
            = Some ''text/plain; charset=utf-8'' \<and>
          Written (GetPropertyBySlug enc s params w) = ''Property not found'' @ newline)"
proof -
  have hit: "\<exists>p \<in> set (elems (properties s)).
             Slug.Current (Property.Slug p) = index_map params ''slug'' \<and>
             Code (GetPropertyBySlug enc s params w) = Some 200 \<and>
             Header (GetPropertyBySlug enc s params w) ''Content-Type'' = Some ''application/json'' \<and>
             Written (GetPropertyBySlug enc s params w) = enc p @ newline"
    if "\<exists>p \<in> set (elems (properties s)).
            Slug.Current (Property.Slug p) = index_map params ''slug''"
  proof -
    from scan_slug_hit [OF that, of enc w] obtain p where
      p: "p \<in> set (elems (properties s))"
         "Slug.Current (Property.Slug p) = index_map params ''slug''"
         "GetPropertyBySlug enc s params w
            = Encode (enc p) (Header_Set ''Content-Type'' ''application/json'' w)"
      by (auto simp: GetPropertyBySlug_def)
    with Encode_fresh [OF assms, of "enc p"] show ?thesis
      by auto
  qed
  have miss: "Code (GetPropertyBySlug enc s params w) = Some 404 \<and>
          Header (GetPropertyBySlug enc s params w) ''Content-Type''
            = Some ''text/plain; charset=utf-8'' \<and>
          Written (GetPropertyBySlug enc s params w) = ''Property not found'' @ newline"
    if "\<forall>p \<in> set (elems (properties s)).
             Slug.Current (Property.Slug p) \<noteq> index_map params ''slug''"
  proof -
    have "GetPropertyBySlug enc s params w = http_Error ''Property not found'' 404 w"
      using scan_slug_miss [OF that] by (simp add: GetPropertyBySlug_def)
    with http_Error_fresh [OF assms, of "''Property not found''" 404] show ?thesis
      by simp
  qed
  from hit miss show ?thesis by blast
qed

theorem GetPropertyBySlug_found_or_404_witness:
  "Code (GetPropertyBySlug sample_enc sample_server [''slug'' \<mapsto> ''garden-heights''] fresh)
     = Some 200 \<and>
   Written (GetPropertyBySlug sample_enc sample_server [''slug'' \<mapsto> ''garden-heights''] fresh)
     = sample_enc (sample_Property ''p1'' ''garden-heights'') @ newline \<and>
   Code (GetPropertyBySlug sample_enc sample_server [''slug'' \<mapsto> ''does-not-exist''] fresh)
     = Some 404 \<and>
   Written (GetPropertyBySlug sample_enc sample_server [''slug'' \<mapsto> ''does-not-exist''] fresh)
     = ''Property not found'' @ newline"
  using
    GetPropertyBySlug_found_or_404 [of fresh sample_server "[''slug'' \<mapsto> ''garden-heights'']" sample_enc]
    GetPropertyBySlug_found_or_404 [of fresh sample_server "[''slug'' \<mapsto> ''does-not-exist'']" sample_enc]
  by (simp add: fresh_def sample_server_def sample_Property_def zero_Property_def
      index_map_def sample_enc_def sample_text_def)

text \<open>
  Claim C7. The lookup by slug returns the first property, in the snapshot's order, whose
  slug is the requested one. When the property at index \<open>i\<close> has the slug and none
  before it has, then, on a writer to which nothing was written yet, the handler answers
  200 with content type \<open>application/json\<close> and its body is the encoding of the property
  at index \<open>i\<close> followed by a newline, whatever comes after index \<open>i\<close>; in particular
  the earliest of several properties with the same slug is the one returned.
\<close>

theorem GetPropertyBySlug_first_match:
  assumes "i < length (elems (properties s))"
    and "Slug.Current (Property.Slug (elems (properties s) ! i)) = index_map params ''slug''"
    and "\<forall>j < i. Slug.Current (Property.Slug (elems (properties s) ! j))
                    \<noteq> index_map params ''slug''"
    and "Code w = None"
    and "Written w = []"
  shows "Written (GetPropertyBySlug enc s params w) = enc (elems (properties s) ! i) @ newline \<and>
         Code (GetPropertyBySlug enc s params w) = Some 200 \<and>
         Header (GetPropertyBySlug enc s params w) ''Content-Type'' = Some ''application/json'' \<and>
         GetPropertyBySlug enc s params w
           = Encode (enc (elems (properties s) ! i))
               (Header_Set ''Content-Type'' ''application/json'' w)"
proof -
  have run: "GetPropertyBySlug enc s params w
               = Encode (enc (elems (properties s) ! i))
                   (Header_Set ''Content-Type'' ''application/json'' w)"
    using scan_slug_first [OF assms(1-3)] by (simp add: GetPropertyBySlug_def)
  from Encode_fresh [OF assms(4,5), of "enc (elems (properties s) ! i)"] run
  show ?thesis by simp
qed

theorem GetPropertyBySlug_first_match_witness:
  \<open>Written (GetPropertyBySlug sample_enc sample_duplicates
      [''slug'' \<mapsto> ''garden-heights''] fresh)
     = ''{"_id":"p1","slug":{"_type":"slug","current":"garden-heights"}}'' @ [CHR 0x0A] \<and>
   Code (GetPropertyBySlug sample_enc sample_duplicates
      [''slug'' \<mapsto> ''garden-heights''] fresh) = Some 200 \<and>
   Header (GetPropertyBySlug sample_enc sample_duplicates
      [''slug'' \<mapsto> ''garden-heights''] fresh) ''Content-Type'' = Some ''application/json'' \<and>
   elems (properties sample_duplicates) ! 1 = sample_Property ''p1'' ''garden-heights'' \<and>
   elems (properties sample_duplicates) ! 2 = sample_Property ''p3'' ''garden-heights'' \<and>
   sample_enc (sample_Property ''p3'' ''garden-heights'')
     = ''{"_id":"p3","slug":{"_type":"slug","current":"garden-heights"}}''\<close>
proof -
  have first: "elems (properties sample_duplicates) ! 1 = sample_Property ''p1'' ''garden-heights''"
    and later: "elems (properties sample_duplicates) ! 2 = sample_Property ''p3'' ''garden-heights''"
    by (simp_all add: sample_duplicates_def)
  have enc1: \<open>sample_enc (sample_Property ''p1'' ''garden-heights'')
               = ''{"_id":"p1","slug":{"_type":"slug","current":"garden-heights"}}''\<close>
    and enc3: \<open>sample_enc (sample_Property ''p3'' ''garden-heights'')
               = ''{"_id":"p3","slug":{"_type":"slug","current":"garden-heights"}}''\<close>
    by (simp_all add: sample_enc_def sample_Property_def zero_Property_def)
  have pre: "1 < length (elems (properties sample_duplicates))"
      "Slug.Current (Property.Slug (elems (properties sample_duplicates) ! 1))
         = index_map [''slug'' \<mapsto> ''garden-heights''] ''slug''"
      "\<forall>j < 1. Slug.Current (Property.Slug (elems (properties sample_duplicates) ! j))
                    \<noteq> index_map [''slug'' \<mapsto> ''garden-heights''] ''slug''"
      "Code fresh = None" "Written fresh = []"
    by (simp_all add: sample_duplicates_def sample_Property_def zero_Property_def
        index_map_def fresh_def)
  from GetPropertyBySlug_first_match [OF pre, of sample_enc] first later enc1 enc3
  show ?thesis
    by (simp add: newline_def Encode_def Write_def WriteHeader_def Header_Set_def fresh_def
        Let_def)
qed

section \<open>Startup\<close>

lemma main_runs:
  "main (Inr [''SANITY_API_URL'' \<mapsto> ''https://cms/query='']) [''PORT'' \<mapsto> ''9000'']
     = [LoadDotenv, Getenv ''SANITY_API_URL'', GoRefresher ''https://cms/query='',
        Getenv ''PORT'', Println ''Server is running on port: 9000'', ListenAndServe '':9000'']"
  by (simp add: main_def godotenv_Load_def os_Getenv_def Let_def)

text \<open>
  Claim C9. When \<open>SANITY_API_URL\<close> is absent, that is set neither in the process
  environment nor by the \<open>.env\<close> file, \<open>main\<close> ends in \<open>log.Fatal\<close>; it never starts the
  refresher and never calls \<open>ListenAndServe\<close>, so no socket is bound and no request is
  served.
\<close>

theorem missing_api_url_is_fatal:
  assumes "env ''SANITY_API_URL'' = None"
    and "\<forall>envMap. dotenv = Inr envMap \<longrightarrow> envMap ''SANITY_API_URL'' = None"
  shows "(\<exists>msg. last (main dotenv env) = Fatal msg) \<and>
         (\<forall>addr. ListenAndServe addr \<notin> set (main dotenv env)) \<and>
         (\<forall>api. GoRefresher api \<notin> set (main dotenv env))"
proof (cases dotenv)
  case (Inl err)
  then show ?thesis by (simp add: main_def godotenv_Load_def)
next
  case (Inr envMap)
  with assms show ?thesis by (simp add: main_def godotenv_Load_def os_Getenv_def)
qed

theorem missing_api_url_is_fatal_witness:
  "[''PORT'' \<mapsto> ''9000''] ''SANITY_API_URL'' = None \<and>
   [''PORT'' \<mapsto> ''8080''] ''SANITY_API_URL'' = None \<and>
   main (Inr [''PORT'' \<mapsto> ''8080'']) [''PORT'' \<mapsto> ''9000'']
     = [LoadDotenv, Getenv ''SANITY_API_URL'',
        Fatal ''SANITY_API_URL is not set in the environment''] \<and>
   (\<exists>msg. last (main (Inr [''PORT'' \<mapsto> ''8080'']) [''PORT'' \<mapsto> ''9000'']) = Fatal msg) \<and>
   (\<forall>addr. ListenAndServe addr
      \<notin> set (main (Inr [''PORT'' \<mapsto> ''8080'']) [''PORT'' \<mapsto> ''9000''])) \<and>
   (\<forall>api. GoRefresher api
      \<notin> set (main (Inr [''PORT'' \<mapsto> ''8080'']) [''PORT'' \<mapsto> ''9000'']))"
  using missing_api_url_is_fatal [of "[''PORT'' \<mapsto> ''9000'']" "Inr [''PORT'' \<mapsto> ''8080'']"]
  by (simp add: main_def godotenv_Load_def os_Getenv_def)

text \<open>
  Claim C10. When loading the \<open>.env\<close> file fails, \<open>main\<close> ends in \<open>log.Fatal\<close> right
  away, whatever the process environment holds: \<open>SANITY_API_URL\<close> is not read and
  \<open>ListenAndServe\<close> is not called.
\<close>

theorem dotenv_failure_is_fatal:
  "main (Inl err) env = [LoadDotenv, Fatal (''Error loading .env file:'' @ err)] \<and>
   Getenv ''SANITY_API_URL'' \<notin> set (main (Inl err) env) \<and>
   (\<forall>addr. ListenAndServe addr \<notin> set (main (Inl err) env))"
  by (simp add: main_def godotenv_Load_def)

end
